theory Spec2Isabelle
  imports Main "HOL-Library.Word"
begin

unbundle bit_operations_syntax

section \<open>ELF relocation entries (src/ELF/Relocation.cpp)\<close>

subsection \<open>Data model\<close>

text \<open>
  Modelled from the spec: the enumeration \<open>ARCH\<close> is declared in
  LIEF/ELF/Structures.hpp, which is not part of the sources at hand. The five
  enumerators that Relocation.cpp names are kept as constructors; \<open>EM_other\<close>
  stands for every other enumerator of the declaration, tagged by its code.
\<close>

datatype ARCH = EM_NONE | EM_386 | EM_ARM | EM_X86_64 | EM_AARCH64 | EM_other nat

text \<open>
  The exceptions of LIEF/exception.hpp that Relocation.cpp raises or catches, each
  with its message.
\<close>

datatype error = not_found string | not_implemented string | not_supported string

text \<open>
  The four raw relocation records of the ELF format (LIEF/ELF/Structures.hpp):
  \<open>Elf32_Addr\<close> and \<open>Elf32_Word\<close> are unsigned 32-bit, \<open>Elf32_Sword\<close> is signed
  32-bit, \<open>Elf64_Addr\<close> and \<open>Elf64_Xword\<close> are unsigned 64-bit, \<open>Elf64_Sxword\<close> is
  signed 64-bit. Signed fields are words read through \<open>sint\<close>. The four records
  share their field names, so the fields are written qualified.
\<close>

record Elf32_Rel =
  r_offset :: "32 word"
  r_info :: "32 word"

record Elf32_Rela =
  r_offset :: "32 word"
  r_info :: "32 word"
  r_addend :: "32 word"

record Elf64_Rel =
  r_offset :: "64 word"
  r_info :: "64 word"

record Elf64_Rela =
  r_offset :: "64 word"
  r_info :: "64 word"
  r_addend :: "64 word"

text \<open>
  The class \<open>Relocation\<close>. The members \<open>address_\<close>, \<open>type_\<close>, \<open>addend_\<close>,
  \<open>isRela_\<close>, \<open>symbol_\<close> and \<open>architecture_\<close> carry the suffix \<open>_field\<close> here
  (a name may not end in an underscore). \<open>addend_\<close> is an \<open>int64_t\<close>: a 64-bit
  word read through \<open>sint\<close>. \<open>symbol_\<close> is a non-owning \<open>Symbol*\<close>: \<open>None\<close> is
  \<open>nullptr\<close>, \<open>Some s\<close> a pointer to the symbol \<open>s\<close>. The class \<open>Symbol\<close> is
  declared elsewhere and is the type parameter \<open>'sym\<close>.
\<close>

record 'sym Relocation =
  address_field :: "64 word"
  type_field :: "32 word"
  addend_field :: "64 word"
  isRela_field :: bool
  symbol_field :: "'sym option"
  architecture_field :: ARCH

subsection \<open>Constructors\<close>

definition Relocation_void :: "'sym Relocation" where
  "Relocation_void =
     \<lparr> address_field = 0, type_field = 0, addend_field = 0, isRela_field = False,
       symbol_field = None, architecture_field = EM_NONE \<rparr>"

definition Relocation_copy :: "'sym Relocation \<Rightarrow> 'sym Relocation" where
  "Relocation_copy other =
     \<lparr> address_field = address_field other, type_field = type_field other,
       addend_field = addend_field other, isRela_field = isRela_field other,
       symbol_field = None, architecture_field = architecture_field other \<rparr>"

definition Relocation_Elf32_Rel :: "Elf32_Rel \<Rightarrow> 'sym Relocation" where
  "Relocation_Elf32_Rel header =
     \<lparr> address_field = ucast (Elf32_Rel.r_offset header),
       type_field = Elf32_Rel.r_info header AND 0xff,
       addend_field = 0, isRela_field = False,
       symbol_field = None, architecture_field = EM_NONE \<rparr>"

definition Relocation_Elf32_Rela :: "Elf32_Rela \<Rightarrow> 'sym Relocation" where
  "Relocation_Elf32_Rela header =
     \<lparr> address_field = ucast (Elf32_Rela.r_offset header),
       type_field = Elf32_Rela.r_info header AND 0xff,
       addend_field = scast (Elf32_Rela.r_addend header), isRela_field = True,
       symbol_field = None, architecture_field = EM_NONE \<rparr>"

definition Relocation_Elf64_Rel :: "Elf64_Rel \<Rightarrow> 'sym Relocation" where
  "Relocation_Elf64_Rel header =
     \<lparr> address_field = Elf64_Rel.r_offset header,
       type_field = ucast (Elf64_Rel.r_info header AND 0xffffffff),
       addend_field = 0, isRela_field = False,
       symbol_field = None, architecture_field = EM_NONE \<rparr>"

definition Relocation_Elf64_Rela :: "Elf64_Rela \<Rightarrow> 'sym Relocation" where
  "Relocation_Elf64_Rela header =
     \<lparr> address_field = Elf64_Rela.r_offset header,
       type_field = ucast (Elf64_Rela.r_info header AND 0xffffffff),
       addend_field = Elf64_Rela.r_addend header, isRela_field = True,
       symbol_field = None, architecture_field = EM_NONE \<rparr>"

text \<open>\<open>Relocation(uint64_t address, uint32_t type, int64_t addend, bool isRela)\<close>\<close>

definition Relocation_values ::
    "64 word \<Rightarrow> 32 word \<Rightarrow> 64 word \<Rightarrow> bool \<Rightarrow> 'sym Relocation" where
  "Relocation_values address type addend isRela =
     \<lparr> address_field = address, type_field = type, addend_field = addend,
       isRela_field = isRela, symbol_field = None, architecture_field = EM_NONE \<rparr>"

subsection \<open>Swap and assignment\<close>

definition swap :: "'sym Relocation \<Rightarrow> 'sym Relocation \<Rightarrow> 'sym Relocation \<times> 'sym Relocation" where
  "swap this other =
     (this \<lparr> address_field := address_field other, type_field := type_field other,
             addend_field := addend_field other, isRela_field := isRela_field other,
             symbol_field := symbol_field other,
             architecture_field := architecture_field other \<rparr>,
      other \<lparr> address_field := address_field this, type_field := type_field this,
              addend_field := addend_field this, isRela_field := isRela_field this,
              symbol_field := symbol_field this,
              architecture_field := architecture_field this \<rparr>)"

text \<open>
  \<open>operator=(Relocation other)\<close> takes its argument by value: the parameter is a
  copy made by the copy constructor, and \<open>this\<close> is swapped with that copy.
\<close>

definition operator_assign :: "'sym Relocation \<Rightarrow> 'sym Relocation \<Rightarrow> 'sym Relocation" where
  "operator_assign this arg = fst (swap this (Relocation_copy arg))"

subsection \<open>Accessors\<close>

definition address :: "'sym Relocation \<Rightarrow> 64 word" where
  "address this = address_field this"

definition addend :: "'sym Relocation \<Rightarrow> 64 word" where
  "addend this = addend_field this"

definition type :: "'sym Relocation \<Rightarrow> 32 word" where
  "type this = type_field this"

definition symbol :: "'sym Relocation \<Rightarrow> error + 'sym" where
  "symbol this =
     (case symbol_field this of
        Some s \<Rightarrow> Inr s
      | None \<Rightarrow> Inl (not_found ''No symbol associated with this relocation''))"

definition is_rela :: "'sym Relocation \<Rightarrow> bool" where
  "is_rela this = isRela_field this"

definition is_rel :: "'sym Relocation \<Rightarrow> bool" where
  "is_rel this = (\<not> isRela_field this)"

definition architecture :: "'sym Relocation \<Rightarrow> ARCH" where
  "architecture this = architecture_field this"

definition has_symbol :: "'sym Relocation \<Rightarrow> bool" where
  "has_symbol this = (symbol_field this \<noteq> None)"

subsection \<open>Mutators\<close>

definition address_set :: "64 word \<Rightarrow> 'sym Relocation \<Rightarrow> 'sym Relocation" where
  "address_set a this = this \<lparr> address_field := a \<rparr>"

definition addend_set :: "64 word \<Rightarrow> 'sym Relocation \<Rightarrow> 'sym Relocation" where
  "addend_set a this = this \<lparr> addend_field := a \<rparr>"

definition type_set :: "32 word \<Rightarrow> 'sym Relocation \<Rightarrow> 'sym Relocation" where
  "type_set t this = this \<lparr> type_field := t \<rparr>"

text \<open>
  Modelled from the spec: binding a symbol is done by the owning collaborator (a
  friend class that writes \<open>symbol_\<close>), not by a member function of this file.
  The spec: binding is an explicit operation; rebinding is allowed and simply
  overwrites the reference.
\<close>

definition bind_symbol :: "'sym \<Rightarrow> 'sym Relocation \<Rightarrow> 'sym Relocation" where
  "bind_symbol s this = this \<lparr> symbol_field := Some s \<rparr>"

subsection \<open>Size resolution\<close>

text \<open>
  What Relocation.cpp uses from headers that are not at hand, as parameters of the
  model: the \<open>to_string\<close> overloads of LIEF/ELF/EnumToString.hpp (the relocation
  type enumerations \<open>RELOC_x86_64\<close>, \<open>RELOC_i386\<close>, \<open>RELOC_ARM\<close>,
  \<open>RELOC_AARCH64\<close> are the 32-bit type code reinterpreted by \<open>static_cast\<close>), the
  four \<open>std::map\<close> size tables of LIEF/ELF/RelocationSizes.hpp, and the two
  member functions of \<open>Symbol\<close> that the formatter calls. \<open>demangled_name\<close> may
  raise.
\<close>

record 'sym externals =
  to_string_ARCH :: "ARCH \<Rightarrow> string"
  to_string_RELOC_x86_64 :: "32 word \<Rightarrow> string"
  to_string_RELOC_i386 :: "32 word \<Rightarrow> string"
  to_string_RELOC_ARM :: "32 word \<Rightarrow> string"
  to_string_RELOC_AARCH64 :: "32 word \<Rightarrow> string"
  relocation_x86_64_sizes :: "32 word \<rightharpoonup> 32 word"
  relocation_i386_sizes :: "32 word \<rightharpoonup> 32 word"
  relocation_ARM_sizes :: "32 word \<rightharpoonup> 32 word"
  relocation_AARCH64_sizes :: "32 word \<rightharpoonup> 32 word"
  Symbol_name :: "'sym \<Rightarrow> string"
  Symbol_demangled_name :: "'sym \<Rightarrow> error + string"

text \<open>
  \<open>Relocation::size\<close>: \<open>std::map::at\<close> raises \<open>std::out_of_range\<close> on a missing
  key, which is caught and turned into \<open>not_implemented\<close>.
\<close>

definition size_Relocation :: "'sym externals \<Rightarrow> 'sym Relocation \<Rightarrow> error + 32 word" where
  "size_Relocation X this =
     (case architecture this of
        EM_X86_64 \<Rightarrow>
          (case relocation_x86_64_sizes X (type this) of
             Some n \<Rightarrow> Inr n
           | None \<Rightarrow> Inl (not_implemented (to_string_ARCH X (architecture this) @ '' - '' @
                                          to_string_RELOC_x86_64 X (type this))))
      | EM_386 \<Rightarrow>
          (case relocation_i386_sizes X (type this) of
             Some n \<Rightarrow> Inr n
           | None \<Rightarrow> Inl (not_implemented (to_string_ARCH X (architecture this) @ '' - '' @
                                          to_string_RELOC_i386 X (type this))))
      | EM_ARM \<Rightarrow>
          (case relocation_ARM_sizes X (type this) of
             Some n \<Rightarrow> Inr n
           | None \<Rightarrow> Inl (not_implemented (to_string_ARCH X (architecture this) @ '' - '' @
                                          to_string_RELOC_ARM X (type this))))
      | EM_AARCH64 \<Rightarrow>
          (case relocation_AARCH64_sizes X (type this) of
             Some n \<Rightarrow> Inr n
           | None \<Rightarrow> Inl (not_implemented (to_string_ARCH X (architecture this) @ '' - '' @
                                          to_string_RELOC_AARCH64 X (type this))))
      | _ \<Rightarrow> Inl (not_implemented (to_string_ARCH X (architecture this))))"

subsection \<open>Visiting, hashing and equality\<close>

text \<open>
  The visitor interface (LIEF/Visitor.hpp) as far as \<open>accept\<close> uses it: one
  \<open>visit\<close> overload per static type of the argument (\<open>uint64_t\<close>, \<open>int64_t\<close>,
  \<open>uint32_t\<close>, \<open>ARCH\<close>) and the call operator applied to a \<open>Symbol\<close>. The
  visitor's state is threaded through.
\<close>

record ('v, 'sym) Visitor =
  visit_uint64 :: "64 word \<Rightarrow> 'v \<Rightarrow> 'v"
  visit_int64 :: "64 word \<Rightarrow> 'v \<Rightarrow> 'v"
  visit_uint32 :: "32 word \<Rightarrow> 'v \<Rightarrow> 'v"
  visit_ARCH :: "ARCH \<Rightarrow> 'v \<Rightarrow> 'v"
  call_Symbol :: "'sym \<Rightarrow> 'v \<Rightarrow> 'v"

definition accept ::
    "('v, 'sym, 'more) Visitor_scheme \<Rightarrow> 'sym Relocation \<Rightarrow> 'v \<Rightarrow> error + 'v" where
  "accept visitor this v0 =
     (let v1 = visit_uint64 visitor (address this) v0;
          v2 = visit_int64 visitor (addend this) v1;
          v3 = visit_uint32 visitor (type this) v2;
          v4 = visit_ARCH visitor (architecture this) v3
      in if has_symbol this
         then (case symbol this of
                 Inl e \<Rightarrow> Inl e
               | Inr s \<Rightarrow> Inr (call_Symbol visitor s v4))
         else Inr v4)"

text \<open>
  The class \<open>Hash\<close> (LIEF/visitors/Hash.hpp) is declared outside this file and is
  a parameter of the model: a visitor together with the state of a freshly
  constructed hasher and the \<open>size_t\<close> value read from a state.
\<close>

record ('v, 'sym) Hash = "('v, 'sym) Visitor" +
  Hash_fresh :: 'v
  Hash_value :: "'v \<Rightarrow> 64 word"

text \<open>
  Modelled from the spec: the static member \<open>Hash::hash\<close> is defined outside this
  file. Per the spec it is the structural hash of an entity, which combines what
  \<open>accept\<close> shows the hasher, in that order: a fresh hasher visits the entity and
  its value is returned.
\<close>

definition Hash_hash :: "('v, 'sym) Hash \<Rightarrow> 'sym Relocation \<Rightarrow> error + 64 word" where
  "Hash_hash H obj =
     (case accept H obj (Hash_fresh H) of
        Inl e \<Rightarrow> Inl e
      | Inr v \<Rightarrow> Inr (Hash_value H v))"

definition operator_eq ::
    "('v, 'sym) Hash \<Rightarrow> 'sym Relocation \<Rightarrow> 'sym Relocation \<Rightarrow> error + bool" where
  "operator_eq H this rhs =
     (case Hash_hash H this of
        Inl e \<Rightarrow> Inl e
      | Inr hash_lhs \<Rightarrow>
          (case Hash_hash H rhs of
             Inl e \<Rightarrow> Inl e
           | Inr hash_rhs \<Rightarrow> Inr (hash_lhs = hash_rhs)))"

definition operator_neq ::
    "('v, 'sym) Hash \<Rightarrow> 'sym Relocation \<Rightarrow> 'sym Relocation \<Rightarrow> error + bool" where
  "operator_neq H this rhs =
     (case operator_eq H this rhs of
        Inl e \<Rightarrow> Inl e
      | Inr b \<Rightarrow> Inr (\<not> b))"

subsection \<open>The single-line summary\<close>

text \<open>
  The standard library's part of the formatter. \<open>operator<<\<close> on a \<open>uint64_t\<close>
  under \<open>std::hex\<close> writes the value in base 16 with lower-case digits and no
  leading zeros; \<open>std::to_string\<close> on a \<open>uint32_t\<close> writes it in base 10.
  \<open>setw_left w s\<close> is a field of width \<open>w\<close> under \<open>std::left\<close> with the default
  fill character: padded on the right, never cut. \<open>digit\<close> is only applied to
  numbers below 16.
\<close>

definition digit :: "nat \<Rightarrow> char" where
  "digit d = ''0123456789abcdef'' ! d"


function dec_digits :: "nat \<Rightarrow> string" where
  "dec_digits n = (if n < 10 then [digit n] else dec_digits (n div 10) @ [digit (n mod 10)])"
  by pat_completeness auto
termination
  by (relation "measure id") auto


definition std_to_string :: "32 word \<Rightarrow> string" where
  "std_to_string t = dec_digits (unat t)"



subsection \<open>The spec's side of architecture dispatch\<close>

text \<open>
  The spec's words for architecture dispatch, to compare \<open>size_Relocation\<close> and the
  formatter with: the supported set of architectures, and for an architecture its
  size table and the label of a type code (the architecture's name for it, or
  the decimal code where the architecture is not supported).
\<close>

definition supported :: "ARCH \<Rightarrow> bool" where
  "supported a = (a = EM_X86_64 \<or> a = EM_386 \<or> a = EM_ARM \<or> a = EM_AARCH64)"

definition size_table :: "'sym externals \<Rightarrow> ARCH \<Rightarrow> (32 word \<rightharpoonup> 32 word)" where
  "size_table X a =
     (case a of
        EM_X86_64 \<Rightarrow> relocation_x86_64_sizes X
      | EM_386 \<Rightarrow> relocation_i386_sizes X
      | EM_ARM \<Rightarrow> relocation_ARM_sizes X
      | EM_AARCH64 \<Rightarrow> relocation_AARCH64_sizes X
      | _ \<Rightarrow> Map.empty)"

definition type_name :: "'sym externals \<Rightarrow> ARCH \<Rightarrow> 32 word \<Rightarrow> string" where
  "type_name X a =
     (case a of
        EM_X86_64 \<Rightarrow> to_string_RELOC_x86_64 X
      | EM_386 \<Rightarrow> to_string_RELOC_i386 X
      | EM_ARM \<Rightarrow> to_string_RELOC_ARM X
      | EM_AARCH64 \<Rightarrow> to_string_RELOC_AARCH64 X
      | _ \<Rightarrow> std_to_string)"

subsection \<open>Concrete collaborators for evaluation\<close>

text \<open>
  A concrete choice of the parameters, after the example of the spec's section 8:
  on x86-64 the type code 2 has size 8 and the name RELATIVE. A symbol is a pair
  of its name and, where demangling is supported, its demangled name.
\<close>

definition example_externals :: "(string \<times> string option) externals" where
  "example_externals =
     \<lparr> to_string_ARCH =
         (\<lambda>a. case a of EM_NONE \<Rightarrow> ''NONE'' | EM_386 \<Rightarrow> ''i386'' | EM_ARM \<Rightarrow> ''ARM''
               | EM_X86_64 \<Rightarrow> ''x86_64'' | EM_AARCH64 \<Rightarrow> ''AARCH64''
               | EM_other n \<Rightarrow> ''UNDEFINED''),
       to_string_RELOC_x86_64 = (\<lambda>t. if t = 2 then ''RELATIVE'' else ''UNDEFINED''),
       to_string_RELOC_i386 = (\<lambda>t. if t = 1 then ''R_386_32'' else ''UNDEFINED''),
       to_string_RELOC_ARM = (\<lambda>t. if t = 2 then ''R_ARM_ABS32'' else ''UNDEFINED''),
       to_string_RELOC_AARCH64 = (\<lambda>t. if t = 257 then ''R_AARCH64_ABS64'' else ''UNDEFINED''),
       relocation_x86_64_sizes = [2 \<mapsto> 8],
       relocation_i386_sizes = [1 \<mapsto> 4],
       relocation_ARM_sizes = [2 \<mapsto> 4],
       relocation_AARCH64_sizes = [257 \<mapsto> 8],
       Symbol_name = fst,
       Symbol_demangled_name =
         (\<lambda>s. case snd s of
                Some d \<Rightarrow> Inr d
              | None \<Rightarrow> Inl (not_supported ''Can not demangle name'')) \<rparr>"

text \<open>
  A visitor that records what it is shown, in order. Its state is the list of
  the values seen so far.
\<close>

datatype 'sym seen =
  Seen_uint64 "64 word" | Seen_int64 "64 word" | Seen_uint32 "32 word" | Seen_ARCH ARCH
  | Seen_Symbol 'sym

definition trace_Visitor :: "('sym seen list, 'sym) Visitor" where
  "trace_Visitor =
     \<lparr> visit_uint64 = (\<lambda>n v. v @ [Seen_uint64 n]),
       visit_int64 = (\<lambda>n v. v @ [Seen_int64 n]),
       visit_uint32 = (\<lambda>n v. v @ [Seen_uint32 n]),
       visit_ARCH = (\<lambda>a v. v @ [Seen_ARCH a]),
       call_Symbol = (\<lambda>s v. v @ [Seen_Symbol s]) \<rparr>"

text \<open>
  A concrete hasher for evaluation at concrete inputs: its state is the running
  \<open>size_t\<close> value, into which each value shown is mixed; an architecture is
  shown as its ELF machine code and a symbol as the characters of its name.
\<close>

definition combine :: "64 word \<Rightarrow> 64 word \<Rightarrow> 64 word" where
  "combine lhs rhs = (lhs XOR rhs) + 0x9e3779b9 + push_bit 6 lhs + drop_bit 2 rhs"

definition ARCH_code :: "ARCH \<Rightarrow> 64 word" where
  "ARCH_code a =
     (case a of EM_NONE \<Rightarrow> 0 | EM_386 \<Rightarrow> 3 | EM_ARM \<Rightarrow> 40 | EM_X86_64 \<Rightarrow> 62
      | EM_AARCH64 \<Rightarrow> 183 | EM_other n \<Rightarrow> of_nat n)"

definition example_Hash :: "(64 word, string \<times> string option) Hash" where
  "example_Hash =
     \<lparr> visit_uint64 = (\<lambda>n v. combine v n),
       visit_int64 = (\<lambda>n v. combine v n),
       visit_uint32 = (\<lambda>n v. combine v (ucast n)),
       visit_ARCH = (\<lambda>a v. combine v (ARCH_code a)),
       call_Symbol = (\<lambda>s v. fold (\<lambda>c w. combine w (of_nat (of_char c))) (fst s) v),
       Hash_fresh = 0,
       Hash_value = (\<lambda>v. v) \<rparr>"

subsection \<open>The spec's side of construction from explicit values\<close>

text \<open>
  The spec's words for the entity to compare the explicit-value constructor with:
  the entity decoded from the matching raw layout whose fields carry the same
  values. The flag selects the layout (Rela when set, Rel otherwise), \<open>r_offset\<close>
  is the address and \<open>r_info\<close> the type; the Rela record has \<open>r_addend\<close> the
  addend, the Rel record has no field for it. The 64-bit layouts are taken, whose
  fields hold every address and type.
\<close>

definition decoded_from_matching_layout ::
    "64 word \<Rightarrow> 32 word \<Rightarrow> 64 word \<Rightarrow> bool \<Rightarrow> 'sym Relocation" where
  "decoded_from_matching_layout a t d f =
     (if f
      then Relocation_Elf64_Rela \<lparr> r_offset = a, r_info = ucast t, r_addend = d \<rparr>
      else Relocation_Elf64_Rel \<lparr> Elf64_Rel.r_offset = a, Elf64_Rel.r_info = ucast t \<rparr>)"

section \<open>Properties\<close>

subsection \<open>Word facts used by the decoders\<close>

lemma unat_and_ff: "unat ((x :: 32 word) AND 0xff) = unat x mod 2 ^ 8"
proof -
  have "x AND 0xff = take_bit 8 x"
    by (simp add: take_bit_eq_mask mask_eq_exp_minus_1)
  then have "unat (x AND 0xff) = unat (take_bit 8 x)"
    by (simp only:)
  also have "\<dots> = take_bit 8 (unat x)"
    by (simp only: unsigned_take_bit_eq)
  also have "\<dots> = unat x mod 2 ^ 8"
    by (simp only: take_bit_eq_mod)
  finally show ?thesis .
qed

lemma unat_ucast_and_ffffffff:
  "unat (ucast ((x :: 64 word) AND 0xffffffff) :: 32 word) = unat x mod 2 ^ 32"
proof -
  have "x AND 0xffffffff = take_bit 32 x"
    by (simp add: take_bit_eq_mask mask_eq_exp_minus_1)
  then show ?thesis
    by (simp add: unat_mod unsigned_ucast_eq unsigned_take_bit_eq take_bit_eq_mod)
qed

lemma unat_ucast_32_64: "unat (ucast (x :: 32 word) :: 64 word) = unat x"
proof -
  have "unat x < 2 ^ 32"
    using unsigned_less [of x] by simp
  then show ?thesis
    by (simp add: unsigned_ucast_eq take_bit_eq_mod)
qed

lemma sint_scast_32_64: "sint (scast (x :: 32 word) :: 64 word) = sint x"
  by (simp add: sint_up_scast is_up)

lemmas accessor_defs =
  address_def addend_def type_def is_rela_def is_rel_def architecture_def has_symbol_def

subsection \<open>Decoding the raw layouts\<close>

text \<open>
  C1. Decoding each of the four raw layouts and reading the entity back through
  the accessors: the address is the record's \<open>r_offset\<close>; the type is \<open>r_info\<close>
  reduced to its low 8 bits for the 32-bit layouts and to its low 32 bits for the
  64-bit layouts; the addend is \<open>r_addend\<close> (as a signed value) for the Rela
  layouts and 0 for the Rel layouts; \<open>is_rela\<close> holds exactly for the Rela
  layouts; the architecture is \<open>EM_NONE\<close>.
\<close>

theorem decode_roundtrip:
  "unat (address (Relocation_Elf32_Rel h1 :: 'sym Relocation)) = unat (Elf32_Rel.r_offset h1)
   \<and> unat (type (Relocation_Elf32_Rel h1 :: 'sym Relocation)) = unat (Elf32_Rel.r_info h1) mod 2 ^ 8
   \<and> addend (Relocation_Elf32_Rel h1 :: 'sym Relocation) = 0
   \<and> is_rela (Relocation_Elf32_Rel h1 :: 'sym Relocation) = False
   \<and> architecture (Relocation_Elf32_Rel h1 :: 'sym Relocation) = EM_NONE
   \<and> unat (address (Relocation_Elf32_Rela h2 :: 'sym Relocation)) = unat (Elf32_Rela.r_offset h2)
   \<and> unat (type (Relocation_Elf32_Rela h2 :: 'sym Relocation)) = unat (Elf32_Rela.r_info h2) mod 2 ^ 8
   \<and> sint (addend (Relocation_Elf32_Rela h2 :: 'sym Relocation)) = sint (Elf32_Rela.r_addend h2)
   \<and> is_rela (Relocation_Elf32_Rela h2 :: 'sym Relocation) = True
   \<and> architecture (Relocation_Elf32_Rela h2 :: 'sym Relocation) = EM_NONE
   \<and> address (Relocation_Elf64_Rel h3 :: 'sym Relocation) = Elf64_Rel.r_offset h3
   \<and> unat (type (Relocation_Elf64_Rel h3 :: 'sym Relocation)) = unat (Elf64_Rel.r_info h3) mod 2 ^ 32
   \<and> addend (Relocation_Elf64_Rel h3 :: 'sym Relocation) = 0
   \<and> is_rela (Relocation_Elf64_Rel h3 :: 'sym Relocation) = False
   \<and> architecture (Relocation_Elf64_Rel h3 :: 'sym Relocation) = EM_NONE
   \<and> address (Relocation_Elf64_Rela h4 :: 'sym Relocation) = Elf64_Rela.r_offset h4
   \<and> unat (type (Relocation_Elf64_Rela h4 :: 'sym Relocation)) = unat (Elf64_Rela.r_info h4) mod 2 ^ 32
   \<and> addend (Relocation_Elf64_Rela h4 :: 'sym Relocation) = Elf64_Rela.r_addend h4
   \<and> is_rela (Relocation_Elf64_Rela h4 :: 'sym Relocation) = True
   \<and> architecture (Relocation_Elf64_Rela h4 :: 'sym Relocation) = EM_NONE"
proof -
  have rel32:
    "unat (address (Relocation_Elf32_Rel h1 :: 'sym Relocation)) = unat (Elf32_Rel.r_offset h1)
     \<and> unat (type (Relocation_Elf32_Rel h1 :: 'sym Relocation)) = unat (Elf32_Rel.r_info h1) mod 2 ^ 8
     \<and> addend (Relocation_Elf32_Rel h1 :: 'sym Relocation) = 0
     \<and> is_rela (Relocation_Elf32_Rel h1 :: 'sym Relocation) = False
     \<and> architecture (Relocation_Elf32_Rel h1 :: 'sym Relocation) = EM_NONE"
    by (simp only: accessor_defs Relocation_Elf32_Rel_def Relocation.simps
        unat_and_ff unat_ucast_32_64 simp_thms)
  have rela32:
    "unat (address (Relocation_Elf32_Rela h2 :: 'sym Relocation)) = unat (Elf32_Rela.r_offset h2)
     \<and> unat (type (Relocation_Elf32_Rela h2 :: 'sym Relocation)) = unat (Elf32_Rela.r_info h2) mod 2 ^ 8
     \<and> sint (addend (Relocation_Elf32_Rela h2 :: 'sym Relocation)) = sint (Elf32_Rela.r_addend h2)
     \<and> is_rela (Relocation_Elf32_Rela h2 :: 'sym Relocation) = True
     \<and> architecture (Relocation_Elf32_Rela h2 :: 'sym Relocation) = EM_NONE"
    by (simp only: accessor_defs Relocation_Elf32_Rela_def Relocation.simps
        unat_and_ff unat_ucast_32_64 sint_scast_32_64 simp_thms)
  have rel64:
    "address (Relocation_Elf64_Rel h3 :: 'sym Relocation) = Elf64_Rel.r_offset h3
     \<and> unat (type (Relocation_Elf64_Rel h3 :: 'sym Relocation)) = unat (Elf64_Rel.r_info h3) mod 2 ^ 32
     \<and> addend (Relocation_Elf64_Rel h3 :: 'sym Relocation) = 0
     \<and> is_rela (Relocation_Elf64_Rel h3 :: 'sym Relocation) = False
     \<and> architecture (Relocation_Elf64_Rel h3 :: 'sym Relocation) = EM_NONE"
    by (simp only: accessor_defs Relocation_Elf64_Rel_def Relocation.simps
        unat_ucast_and_ffffffff simp_thms)
  have rela64:
    "address (Relocation_Elf64_Rela h4 :: 'sym Relocation) = Elf64_Rela.r_offset h4
     \<and> unat (type (Relocation_Elf64_Rela h4 :: 'sym Relocation)) = unat (Elf64_Rela.r_info h4) mod 2 ^ 32
     \<and> addend (Relocation_Elf64_Rela h4 :: 'sym Relocation) = Elf64_Rela.r_addend h4
     \<and> is_rela (Relocation_Elf64_Rela h4 :: 'sym Relocation) = True
     \<and> architecture (Relocation_Elf64_Rela h4 :: 'sym Relocation) = EM_NONE"
    by (simp only: accessor_defs Relocation_Elf64_Rela_def Relocation.simps
        unat_ucast_and_ffffffff simp_thms)
  from rel32 rela32 rel64 rela64 show ?thesis
    by (simp only: simp_thms)
qed

subsection \<open>Copy construction\<close>

text \<open>
  C8. The copy constructor keeps address, type, addend, has-addend flag and
  architecture, and never copies the symbol binding: the copy has no symbol, also
  when the original has one.
\<close>

theorem copy_drops_symbol:
  "address (Relocation_copy other) = address other
   \<and> type (Relocation_copy other) = type other
   \<and> addend (Relocation_copy other) = addend other
   \<and> is_rela (Relocation_copy other) = is_rela other
   \<and> architecture (Relocation_copy other) = architecture other
   \<and> has_symbol (Relocation_copy other) = False
   \<and> has_symbol (Relocation_copy (bind_symbol s other)) = False"
  by (simp add: accessor_defs Relocation_copy_def bind_symbol_def)

subsection \<open>The two layout predicates\<close>

text \<open>
  C9. In every state of an entity \<open>is_rel\<close> is the negation of \<open>is_rela\<close>:
  exactly one of the two holds.
\<close>

theorem is_rel_negates_is_rela:
  "is_rel this = (\<not> is_rela this) \<and> (is_rel this \<noteq> is_rela this)"
  by (simp add: is_rel_def is_rela_def)

subsection \<open>Mutators\<close>

text \<open>
  C10. Each of the three setters writes its own field and nothing else: the
  other two of address, type and addend, the has-addend flag, the architecture
  and the symbol binding are as before.
\<close>

theorem setters_frame:
  "address (address_set a this) = a
   \<and> type (address_set a this) = type this
   \<and> addend (address_set a this) = addend this
   \<and> is_rela (address_set a this) = is_rela this
   \<and> architecture (address_set a this) = architecture this
   \<and> symbol_field (address_set a this) = symbol_field this
   \<and> type (type_set t this) = t
   \<and> address (type_set t this) = address this
   \<and> addend (type_set t this) = addend this
   \<and> is_rela (type_set t this) = is_rela this
   \<and> architecture (type_set t this) = architecture this
   \<and> symbol_field (type_set t this) = symbol_field this
   \<and> addend (addend_set d this) = d
   \<and> address (addend_set d this) = address this
   \<and> type (addend_set d this) = type this
   \<and> is_rela (addend_set d this) = is_rela this
   \<and> architecture (addend_set d this) = architecture this
   \<and> symbol_field (addend_set d this) = symbol_field this"
  by (simp add: accessor_defs address_set_def type_set_def addend_set_def)

subsection \<open>Size resolution\<close>

lemma size_Relocation_eq:
  "size_Relocation X this =
     (if supported (architecture this)
      then (case size_table X (architecture this) (type this) of
              Some n \<Rightarrow> Inr n
            | None \<Rightarrow> Inl (not_implemented (to_string_ARCH X (architecture this) @ '' - '' @
                                           type_name X (architecture this) (type this))))
      else Inl (not_implemented (to_string_ARCH X (architecture this))))"
  by (cases "architecture this")
     (simp_all add: size_Relocation_def supported_def size_table_def type_name_def
        split: option.splits)

text \<open>
  C2. Size resolution returns a size exactly when the architecture is one of
  x86-64, i386, ARM, AArch64 and the type is a key of that architecture's table,
  and then it is the tabulated size. With a supported architecture and a type that
  is not in the table it fails with \<open>not_implemented\<close>, the message naming the
  architecture and the type; with any other architecture it fails with
  \<open>not_implemented\<close>, the message naming the architecture only. The result is a
  size or an error, never both.
\<close>

theorem size_resolution:
  "(size_Relocation X this = Inr n \<longleftrightarrow>
      supported (architecture this) \<and> size_table X (architecture this) (type this) = Some n)
   \<and> (supported (architecture this) \<and> type this \<notin> dom (size_table X (architecture this)) \<longrightarrow>
        size_Relocation X this =
          Inl (not_implemented (to_string_ARCH X (architecture this) @ '' - '' @
                                type_name X (architecture this) (type this))))
   \<and> (\<not> supported (architecture this) \<longrightarrow>
        size_Relocation X this = Inl (not_implemented (to_string_ARCH X (architecture this))))"
proof (intro conjI impI)
  show "size_Relocation X this = Inr n \<longleftrightarrow>
      supported (architecture this) \<and> size_table X (architecture this) (type this) = Some n"
    by (simp add: size_Relocation_eq split: option.splits)
next
  assume "supported (architecture this) \<and> type this \<notin> dom (size_table X (architecture this))"
  then show "size_Relocation X this =
          Inl (not_implemented (to_string_ARCH X (architecture this) @ '' - '' @
                                type_name X (architecture this) (type this)))"
    by (auto simp add: size_Relocation_eq dom_def split: option.splits)
next
  assume "\<not> supported (architecture this)"
  then show "size_Relocation X this = Inl (not_implemented (to_string_ARCH X (architecture this)))"
    by (simp add: size_Relocation_eq)
qed

theorem size_resolution_witness:
  "size_Relocation example_externals
     ((Relocation_values 0x1000 2 (- 8) True) \<lparr> architecture_field := EM_X86_64 \<rparr>) = Inr 8
   \<and> size_Relocation example_externals
     ((Relocation_values 0x1000 3 (- 8) True) \<lparr> architecture_field := EM_X86_64 \<rparr>) =
       Inl (not_implemented ''x86_64 - UNDEFINED'')
   \<and> size_Relocation example_externals (Relocation_values 0x1000 2 (- 8) True) =
       Inl (not_implemented ''NONE'')"
proof -
  let ?a = "(Relocation_values 0x1000 2 (- 8) True :: (string \<times> string option) Relocation)
              \<lparr> architecture_field := EM_X86_64 \<rparr>"
  let ?b = "(Relocation_values 0x1000 3 (- 8) True :: (string \<times> string option) Relocation)
              \<lparr> architecture_field := EM_X86_64 \<rparr>"
  let ?c = "Relocation_values 0x1000 2 (- 8) True :: (string \<times> string option) Relocation"
  have a: "supported (architecture ?a)
           \<and> size_table example_externals (architecture ?a) (type ?a) = Some 8"
    by (simp add: supported_def size_table_def example_externals_def architecture_def
        type_def Relocation_values_def)
  have b: "supported (architecture ?b)
           \<and> type ?b \<notin> dom (size_table example_externals (architecture ?b))"
    by (simp add: supported_def size_table_def example_externals_def architecture_def
        type_def Relocation_values_def)
  have c: "\<not> supported (architecture ?c)"
    by (simp add: supported_def architecture_def Relocation_values_def)
  have "size_Relocation example_externals ?a = Inr 8"
    using size_resolution [of example_externals ?a 8] a by blast
  moreover have "size_Relocation example_externals ?b =
      Inl (not_implemented (to_string_ARCH example_externals (architecture ?b) @ '' - '' @
                            type_name example_externals (architecture ?b) (type ?b)))"
    using size_resolution [of example_externals ?b 0] b by blast
  then have "size_Relocation example_externals ?b = Inl (not_implemented ''x86_64 - UNDEFINED'')"
    by (simp add: type_name_def example_externals_def architecture_def type_def
        Relocation_values_def)
  moreover have "size_Relocation example_externals ?c =
      Inl (not_implemented (to_string_ARCH example_externals (architecture ?c)))"
    using size_resolution [of example_externals ?c 0] c by blast
  then have "size_Relocation example_externals ?c = Inl (not_implemented ''NONE'')"
    by (simp add: example_externals_def architecture_def Relocation_values_def)
  ultimately show ?thesis by blast
qed

subsection \<open>Symbol binding\<close>

text \<open>
  C6. Every constructor, decoding or from explicit values, yields an entity
  without a symbol, and so do copy construction and assignment. The setters leave
  the binding as it is and \<open>swap\<close> exchanges the bindings of its two entities, so
  no operation of the class binds a symbol to entities that had none: only the
  explicit bind does. Reading the symbol fails with \<open>not_found\<close> exactly when no
  symbol is bound; it returns a symbol only when that symbol is the bound one,
  and after a bind it returns the symbol bound.
\<close>

theorem symbol_binding:
  "has_symbol (Relocation_void :: 'sym Relocation) = False
   \<and> has_symbol (Relocation_copy other) = False
   \<and> has_symbol (Relocation_Elf32_Rel h1 :: 'sym Relocation) = False
   \<and> has_symbol (Relocation_Elf32_Rela h2 :: 'sym Relocation) = False
   \<and> has_symbol (Relocation_Elf64_Rel h3 :: 'sym Relocation) = False
   \<and> has_symbol (Relocation_Elf64_Rela h4 :: 'sym Relocation) = False
   \<and> has_symbol (Relocation_values a t d f :: 'sym Relocation) = False
   \<and> has_symbol (operator_assign this other) = False
   \<and> has_symbol (address_set a this) = has_symbol this
   \<and> has_symbol (type_set t this) = has_symbol this
   \<and> has_symbol (addend_set d this) = has_symbol this
   \<and> has_symbol (fst (swap this other)) = has_symbol other
   \<and> has_symbol (snd (swap this other)) = has_symbol this
   \<and> has_symbol (bind_symbol s this) = True
   \<and> symbol (bind_symbol s this) = Inr s
   \<and> (symbol this = Inl (not_found ''No symbol associated with this relocation'')
        \<longleftrightarrow> has_symbol this = False)
   \<and> (symbol this = Inr s \<longleftrightarrow> symbol_field this = Some s)"
proof -
  have ctors:
    "has_symbol (Relocation_void :: 'sym Relocation) = False
     \<and> has_symbol (Relocation_copy other) = False
     \<and> has_symbol (Relocation_Elf32_Rel h1 :: 'sym Relocation) = False
     \<and> has_symbol (Relocation_Elf32_Rela h2 :: 'sym Relocation) = False
     \<and> has_symbol (Relocation_Elf64_Rel h3 :: 'sym Relocation) = False
     \<and> has_symbol (Relocation_Elf64_Rela h4 :: 'sym Relocation) = False
     \<and> has_symbol (Relocation_values a t d f :: 'sym Relocation) = False"
    by (simp add: has_symbol_def Relocation_void_def Relocation_copy_def
        Relocation_Elf32_Rel_def Relocation_Elf32_Rela_def Relocation_Elf64_Rel_def
        Relocation_Elf64_Rela_def Relocation_values_def)
  have ops:
    "has_symbol (operator_assign this other) = False
     \<and> has_symbol (address_set a this) = has_symbol this
     \<and> has_symbol (type_set t this) = has_symbol this
     \<and> has_symbol (addend_set d this) = has_symbol this
     \<and> has_symbol (fst (swap this other)) = has_symbol other
     \<and> has_symbol (snd (swap this other)) = has_symbol this"
    by (simp add: has_symbol_def operator_assign_def swap_def Relocation_copy_def
        address_set_def type_set_def addend_set_def)
  have reads:
    "has_symbol (bind_symbol s this) = True
     \<and> symbol (bind_symbol s this) = Inr s
     \<and> (symbol this = Inl (not_found ''No symbol associated with this relocation'')
          \<longleftrightarrow> has_symbol this = False)
     \<and> (symbol this = Inr s \<longleftrightarrow> symbol_field this = Some s)"
    by (simp add: has_symbol_def symbol_def bind_symbol_def split: option.splits)
  from ctors ops reads show ?thesis
    by (simp only: simp_thms)
qed

subsection \<open>The single-line summary\<close>




subsection \<open>Hashing and equality\<close>

lemma accept_eq:
  "accept V this v =
     Inr ((case symbol_field this of None \<Rightarrow> (\<lambda>w. w) | Some s \<Rightarrow> call_Symbol V s)
            (visit_ARCH V (architecture this)
              (visit_uint32 V (type this)
                (visit_int64 V (addend this)
                  (visit_uint64 V (address this) v)))))"
  by (simp add: accept_def has_symbol_def symbol_def Let_def split: option.splits)

lemma Hash_hash_eq:
  "Hash_hash H this =
     Inr (Hash_value H
            ((case symbol_field this of None \<Rightarrow> (\<lambda>w. w) | Some s \<Rightarrow> call_Symbol H s)
               (visit_ARCH H (architecture this)
                 (visit_uint32 H (type this)
                   (visit_int64 H (addend this)
                     (visit_uint64 H (address this) (Hash_fresh H)))))))"
  by (simp add: Hash_hash_def accept_eq)

lemma Hash_hash_cong:
  assumes "address a = address b" "addend a = addend b" "type a = type b"
    "architecture a = architecture b" "symbol_field a = symbol_field b"
  shows "Hash_hash H a = Hash_hash H b"
  by (simp only: Hash_hash_eq assms)

lemma operator_eq_eq: "operator_eq H a b = Inr (Hash_hash H a = Hash_hash H b)"
  by (simp add: operator_eq_def Hash_hash_eq)

text \<open>
  C4. The structural hash of an entity is the value of a fresh hasher that has
  been shown the address, the addend, the type, the architecture and, only when a
  symbol is bound, the symbol, in that order. Equality never fails and holds if
  and only if the two structural hashes are equal; inequality is its negation.
  Two entities with the same address, addend, type, architecture and symbol
  binding have the same hash, however they were built.
\<close>

theorem equality_is_hash_equality:
  "Hash_hash H this =
     Inr (Hash_value H
            ((case symbol_field this of None \<Rightarrow> (\<lambda>w. w) | Some s \<Rightarrow> call_Symbol H s)
               (visit_ARCH H (architecture this)
                 (visit_uint32 H (type this)
                   (visit_int64 H (addend this)
                     (visit_uint64 H (address this) (Hash_fresh H)))))))
   \<and> operator_eq H a b = Inr (Hash_hash H a = Hash_hash H b)
   \<and> operator_neq H a b = Inr (Hash_hash H a \<noteq> Hash_hash H b)
   \<and> (address a = address b \<and> addend a = addend b \<and> type a = type b
        \<and> architecture a = architecture b \<and> symbol_field a = symbol_field b
        \<longrightarrow> Hash_hash H a = Hash_hash H b)"
proof (intro conjI impI)
  show "Hash_hash H this =
     Inr (Hash_value H
            ((case symbol_field this of None \<Rightarrow> (\<lambda>w. w) | Some s \<Rightarrow> call_Symbol H s)
               (visit_ARCH H (architecture this)
                 (visit_uint32 H (type this)
                   (visit_int64 H (addend this)
                     (visit_uint64 H (address this) (Hash_fresh H)))))))"
    by (rule Hash_hash_eq)
next
  show "operator_eq H a b = Inr (Hash_hash H a = Hash_hash H b)"
    by (rule operator_eq_eq)
next
  show "operator_neq H a b = Inr (Hash_hash H a \<noteq> Hash_hash H b)"
    by (simp add: operator_neq_def operator_eq_eq)
next
  assume "address a = address b \<and> addend a = addend b \<and> type a = type b
        \<and> architecture a = architecture b \<and> symbol_field a = symbol_field b"
  then show "Hash_hash H a = Hash_hash H b"
    by (intro Hash_hash_cong) simp_all
qed

theorem equality_is_hash_equality_witness:
  "Hash_hash example_Hash
     (Relocation_Elf64_Rela \<lparr> r_offset = 0x1000, r_info = 0x0000000100000002, r_addend = - 8 \<rparr>) =
   Hash_hash example_Hash (Relocation_values 0x1000 2 (- 8) True)
   \<and> operator_eq example_Hash
     (Relocation_Elf64_Rela \<lparr> r_offset = 0x1000, r_info = 0x0000000100000002, r_addend = - 8 \<rparr>)
     (Relocation_values 0x1000 2 (- 8) True) = Inr True"
proof -
  let ?a = "Relocation_Elf64_Rela
              \<lparr> r_offset = 0x1000, r_info = 0x0000000100000002, r_addend = - 8 \<rparr>
            :: (string \<times> string option) Relocation"
  let ?b = "Relocation_values 0x1000 2 (- 8) True :: (string \<times> string option) Relocation"
  have same: "address ?a = address ?b \<and> addend ?a = addend ?b \<and> type ?a = type ?b
        \<and> architecture ?a = architecture ?b \<and> symbol_field ?a = symbol_field ?b"
    by (simp add: accessor_defs Relocation_Elf64_Rela_def Relocation_values_def)
  have hashes: "Hash_hash example_Hash ?a = Hash_hash example_Hash ?b"
    by (rule equality_is_hash_equality
          [THEN conjunct2, THEN conjunct2, THEN conjunct2, rule_format])
       (rule same)
  have "operator_eq example_Hash ?a ?b =
          Inr (Hash_hash example_Hash ?a = Hash_hash example_Hash ?b)"
    by (rule equality_is_hash_equality [THEN conjunct2, THEN conjunct1])
  with hashes have "operator_eq example_Hash ?a ?b = Inr True"
    by (simp only: simp_thms)
  with hashes show ?thesis
    by (simp only: simp_thms)
qed

lemma accept_trace:
  "accept trace_Visitor this [] =
     Inr ([Seen_uint64 (address this), Seen_int64 (addend this), Seen_uint32 (type this),
           Seen_ARCH (architecture this)]
          @ (case symbol_field this of None \<Rightarrow> [] | Some s \<Rightarrow> [Seen_Symbol s]))"
  by (simp add: accept_eq trace_Visitor_def split: option.splits)

lemma accept_trace_iff:
  "accept trace_Visitor a [] = accept trace_Visitor b [] \<longleftrightarrow>
     address a = address b \<and> type a = type b \<and> addend a = addend b
     \<and> architecture a = architecture b \<and> symbol_field a = symbol_field b"
  by (auto simp add: accept_trace split: option.splits)

lemma operator_eq_False_iff:
  "operator_eq H a b = Inr False \<longleftrightarrow> Hash_hash H a \<noteq> Hash_hash H b"
  by (simp add: operator_eq_eq)

lemma operator_eq_True_iff:
  "operator_eq H a b = Inr True \<longleftrightarrow> Hash_hash H a = Hash_hash H b"
  by (simp add: operator_eq_eq)

lemma hash_collision_on_symbols:
  assumes "infinite (UNIV :: 'sym set)"
  shows "\<exists>s1 s2 :: 'sym. s1 \<noteq> s2 \<and>
           Hash_hash H (bind_symbol s1 this) = Hash_hash H (bind_symbol s2 this)"
proof (rule ccontr)
  let ?g = "\<lambda>s :: 'sym. Hash_hash H (bind_symbol s this)"
  assume "\<not> (\<exists>s1 s2 :: 'sym. s1 \<noteq> s2 \<and> ?g s1 = ?g s2)"
  then have "inj ?g"
    by (auto simp add: inj_on_def)
  moreover have "range ?g \<subseteq> range (Inr :: 64 word \<Rightarrow> error + 64 word)"
    by (auto simp add: Hash_hash_eq)
  then have "finite (range ?g)"
    by (rule finite_subset) simp
  ultimately have "finite (UNIV :: 'sym set)"
    by (rule finite_imageD [rotated])
  with assms show False by simp
qed

text \<open>
  C5, as amended. Two entities with the same address, type, addend, architecture
  and symbol binding are equal, whatever their has-addend flags: the flag is not
  shown to the hasher, so changing only the flag of an entity leaves it equal to
  what it was. The values shown to the hasher are the same for two entities
  exactly when address, type, addend, architecture and symbol binding agree.
  Two entities are unequal exactly when their hashes differ; so on every pair
  that the hasher does not collide on (equal hashes only for equal values shown),
  equality holds exactly when those five agree, and changing any one of the five
  makes the two unequal. The proviso cannot be dropped: where there are
  infinitely many symbols, every hasher has two different symbols whose binding
  to the same entity gives equal entities.
\<close>

theorem equality_ignores_layout_flag:
  "(address a = address b \<and> type a = type b \<and> addend a = addend b
      \<and> architecture a = architecture b \<and> symbol_field a = symbol_field b
      \<longrightarrow> operator_eq H a b = Inr True)
   \<and> operator_eq H (this \<lparr> isRela_field := flag \<rparr>) this = Inr True
   \<and> (accept trace_Visitor a [] = accept trace_Visitor b [] \<longleftrightarrow>
        address a = address b \<and> type a = type b \<and> addend a = addend b
        \<and> architecture a = architecture b \<and> symbol_field a = symbol_field b)
   \<and> (operator_eq H a b = Inr False \<longleftrightarrow> Hash_hash H a \<noteq> Hash_hash H b)
   \<and> (operator_neq H a b = Inr True \<longleftrightarrow> Hash_hash H a \<noteq> Hash_hash H b)
   \<and> ((Hash_hash H a = Hash_hash H b \<longrightarrow>
          accept trace_Visitor a [] = accept trace_Visitor b [])
        \<longrightarrow> (operator_eq H a b = Inr True \<longleftrightarrow>
               address a = address b \<and> type a = type b \<and> addend a = addend b
               \<and> architecture a = architecture b \<and> symbol_field a = symbol_field b)
            \<and> (operator_eq H a b = Inr False \<longleftrightarrow>
               \<not> (address a = address b \<and> type a = type b \<and> addend a = addend b
                  \<and> architecture a = architecture b \<and> symbol_field a = symbol_field b)))
   \<and> (infinite (UNIV :: 'sym set) \<longrightarrow>
        (\<exists>s1 s2 :: 'sym. s1 \<noteq> s2 \<and>
           operator_eq H (bind_symbol s1 this) (bind_symbol s2 this) = Inr True))"
proof -
  let ?same = "address a = address b \<and> type a = type b \<and> addend a = addend b
      \<and> architecture a = architecture b \<and> symbol_field a = symbol_field b"
  have cong: "?same \<longrightarrow> operator_eq H a b = Inr True"
  proof
    assume ?same
    then have "Hash_hash H a = Hash_hash H b"
      by (intro Hash_hash_cong) simp_all
    then show "operator_eq H a b = Inr True"
      by (simp only: operator_eq_True_iff)
  qed
  have flag: "operator_eq H (this \<lparr> isRela_field := flag \<rparr>) this = Inr True"
  proof -
    have "Hash_hash H (this \<lparr> isRela_field := flag \<rparr>) = Hash_hash H this"
      by (intro Hash_hash_cong) (simp_all add: accessor_defs)
    then show ?thesis
      by (simp only: operator_eq_True_iff)
  qed
  have neq: "operator_neq H a b = Inr True \<longleftrightarrow> Hash_hash H a \<noteq> Hash_hash H b"
    by (simp add: operator_neq_def operator_eq_eq)
  have separated:
    "(Hash_hash H a = Hash_hash H b \<longrightarrow> accept trace_Visitor a [] = accept trace_Visitor b [])
     \<longrightarrow> (operator_eq H a b = Inr True \<longleftrightarrow> ?same)
         \<and> (operator_eq H a b = Inr False \<longleftrightarrow> \<not> ?same)"
  proof
    assume sep: "Hash_hash H a = Hash_hash H b \<longrightarrow>
                   accept trace_Visitor a [] = accept trace_Visitor b []"
    have "Hash_hash H a = Hash_hash H b \<longleftrightarrow> ?same"
    proof
      assume "Hash_hash H a = Hash_hash H b"
      with sep have "accept trace_Visitor a [] = accept trace_Visitor b []" by simp
      then show ?same by (simp only: accept_trace_iff)
    next
      assume ?same
      then show "Hash_hash H a = Hash_hash H b"
        by (intro Hash_hash_cong) simp_all
    qed
    then show "(operator_eq H a b = Inr True \<longleftrightarrow> ?same)
         \<and> (operator_eq H a b = Inr False \<longleftrightarrow> \<not> ?same)"
      by (simp only: operator_eq_True_iff operator_eq_False_iff simp_thms)
  qed
  have collide: "infinite (UNIV :: 'sym set) \<longrightarrow>
        (\<exists>s1 s2 :: 'sym. s1 \<noteq> s2 \<and>
           operator_eq H (bind_symbol s1 this) (bind_symbol s2 this) = Inr True)"
  proof
    assume "infinite (UNIV :: 'sym set)"
    then have "\<exists>s1 s2 :: 'sym. s1 \<noteq> s2 \<and>
           Hash_hash H (bind_symbol s1 this) = Hash_hash H (bind_symbol s2 this)"
      by (rule hash_collision_on_symbols)
    then show "\<exists>s1 s2 :: 'sym. s1 \<noteq> s2 \<and>
           operator_eq H (bind_symbol s1 this) (bind_symbol s2 this) = Inr True"
      by (simp only: operator_eq_True_iff)
  qed
  from cong flag accept_trace_iff [of a b] operator_eq_False_iff [of H a b] neq separated collide
  show ?thesis
    by (intro conjI)
qed

lemma infinite_example_symbols: "infinite (UNIV :: (string \<times> string option) set)"
  by (simp add: finite_prod infinite_UNIV_listI)

theorem equality_ignores_layout_flag_witness:
  "operator_eq example_Hash
     (bind_symbol (''main'', None)
        (Relocation_Elf64_Rel \<lparr> Elf64_Rel.r_offset = 0x2000, Elf64_Rel.r_info = 7 \<rparr>))
     (bind_symbol (''main'', None) (Relocation_values 0x2000 7 0 True)) = Inr True
   \<and> operator_eq example_Hash
        (Relocation_values 0x1000 2 (- 8) True) (Relocation_values 0x2000 2 (- 8) True) = Inr False
   \<and> (\<exists>s1 s2. s1 \<noteq> s2 \<and>
         operator_eq example_Hash
           (bind_symbol s1 (Relocation_values 0x1000 2 (- 8) True))
           (bind_symbol s2 (Relocation_values 0x1000 2 (- 8) True)) = Inr True)"
proof -
  let ?a = "bind_symbol (''main'', None)
              (Relocation_Elf64_Rel \<lparr> Elf64_Rel.r_offset = 0x2000, Elf64_Rel.r_info = 7 \<rparr>)
            :: (string \<times> string option) Relocation"
  let ?b = "bind_symbol (''main'', None) (Relocation_values 0x2000 7 0 True)
            :: (string \<times> string option) Relocation"
  let ?c = "Relocation_values 0x1000 2 (- 8) True :: (string \<times> string option) Relocation"
  let ?d = "Relocation_values 0x2000 2 (- 8) True :: (string \<times> string option) Relocation"
  have same: "address ?a = address ?b \<and> type ?a = type ?b \<and> addend ?a = addend ?b
      \<and> architecture ?a = architecture ?b \<and> symbol_field ?a = symbol_field ?b"
    by (simp add: accessor_defs bind_symbol_def Relocation_Elf64_Rel_def Relocation_values_def)
  have w1: "operator_eq example_Hash ?a ?b = Inr True"
    by (rule equality_ignores_layout_flag [THEN conjunct1, rule_format]) (rule same)
  have differ: "Hash_hash example_Hash ?c \<noteq> Hash_hash example_Hash ?d"
    by (simp add: Hash_hash_eq accessor_defs Relocation_values_def example_Hash_def
        combine_def ARCH_code_def)
  then have sep: "Hash_hash example_Hash ?c = Hash_hash example_Hash ?d \<longrightarrow>
      accept trace_Visitor ?c [] = accept trace_Visitor ?d []"
    by simp
  have w2: "operator_eq example_Hash ?c ?d = Inr False"
  proof -
    have "operator_eq example_Hash ?c ?d = Inr False \<longleftrightarrow>
        \<not> (address ?c = address ?d \<and> type ?c = type ?d \<and> addend ?c = addend ?d
           \<and> architecture ?c = architecture ?d \<and> symbol_field ?c = symbol_field ?d)"
      using equality_ignores_layout_flag [of ?c ?d example_Hash] sep by blast
    then show ?thesis
      by (simp add: accessor_defs Relocation_values_def)
  qed
  have w3: "\<exists>s1 s2. s1 \<noteq> s2 \<and>
         operator_eq example_Hash (bind_symbol s1 ?c) (bind_symbol s2 ?c) = Inr True"
    using equality_ignores_layout_flag [where H = example_Hash and this = ?c]
      infinite_example_symbols
    by blast
  from w1 w2 w3 show ?thesis
    by (intro conjI)
qed

text \<open>
  C5 as stated fails. Two entities built from the same address, type and addend
  that differ only in the has-addend flag compare equal. And a change of a
  hashed field need not break equality either: whatever the hasher, there are two
  different symbols whose binding to the same entity gives equal entities, there
  being more symbols than hash values.
\<close>

theorem flag_change_keeps_equality:
  "is_rela (Relocation_values 0x1000 2 (- 8) True :: (string \<times> string option) Relocation) = True
   \<and> is_rela (Relocation_values 0x1000 2 (- 8) False :: (string \<times> string option) Relocation) = False
   \<and> operator_eq example_Hash
        (Relocation_values 0x1000 2 (- 8) True) (Relocation_values 0x1000 2 (- 8) False) = Inr True
   \<and> operator_neq example_Hash
        (Relocation_values 0x1000 2 (- 8) True) (Relocation_values 0x1000 2 (- 8) False) = Inr False
   \<and> (\<forall>H :: ('v, string \<times> string option) Hash. \<exists>s1 s2. s1 \<noteq> s2 \<and>
         operator_eq H (bind_symbol s1 (Relocation_values 0x1000 2 (- 8) True))
                       (bind_symbol s2 (Relocation_values 0x1000 2 (- 8) True)) = Inr True)"
proof -
  have flag:
    "is_rela (Relocation_values 0x1000 2 (- 8) True :: (string \<times> string option) Relocation) = True
     \<and> is_rela (Relocation_values 0x1000 2 (- 8) False :: (string \<times> string option) Relocation) = False
     \<and> operator_eq example_Hash
          (Relocation_values 0x1000 2 (- 8) True) (Relocation_values 0x1000 2 (- 8) False) = Inr True
     \<and> operator_neq example_Hash
          (Relocation_values 0x1000 2 (- 8) True) (Relocation_values 0x1000 2 (- 8) False) = Inr False"
    by (simp add: is_rela_def operator_neq_def operator_eq_def Hash_hash_def accept_def Let_def
        accessor_defs Relocation_values_def)
  have "\<exists>s1 s2. s1 \<noteq> s2 \<and>
         operator_eq H (bind_symbol s1 (Relocation_values 0x1000 2 (- 8) True))
                       (bind_symbol s2 (Relocation_values 0x1000 2 (- 8) True)) = Inr True"
    for H :: "('v, string \<times> string option) Hash"
    using hash_collision_on_symbols [OF infinite_example_symbols, of H]
    by (simp only: operator_eq_True_iff)
  with flag show ?thesis
    by (simp only: simp_thms)
qed

subsection \<open>Construction from explicit values\<close>

lemma ucast_ucast_and_ffffffff:
  "(ucast ((ucast (t :: 32 word) :: 64 word) AND 0xffffffff) :: 32 word) = t"
proof -
  have bound: "unat t < 2 ^ 32"
    using unsigned_less [of t, where 'a = nat] by simp
  have "unat (ucast ((ucast t :: 64 word) AND 0xffffffff) :: 32 word) = unat t mod 2 ^ 32"
    by (simp only: unat_ucast_and_ffffffff unat_ucast_32_64)
  also have "\<dots> = unat t"
    using bound by simp
  finally show ?thesis
    by (simp only: word_unat_eq_iff)
qed

lemma Relocation_values_eq_decoded_iff:
  "(Relocation_values a t d f :: 'sym Relocation) = decoded_from_matching_layout a t d f
     \<longleftrightarrow> f \<or> d = 0"
  by (cases f)
     (auto simp add: Relocation_values_def decoded_from_matching_layout_def
        Relocation_Elf64_Rela_def Relocation_Elf64_Rel_def ucast_ucast_and_ffffffff)

text \<open>
  C3, as amended. For every address, type, addend and has-addend flag, the
  entity built from the explicit values reads back exactly these four values, has
  no symbol and has the architecture \<open>EM_NONE\<close>. The entity decoded from the
  matching raw layout whose fields carry the same values reads back the same
  address, type, \<open>is_rela\<close>, \<open>is_rel\<close>, \<open>has_symbol\<close>, \<open>symbol\<close> and architecture,
  and the addend when the flag is set, but the addend 0 when the flag is unset.
  So the two are the same entity exactly when the flag is set or the addend is 0;
  otherwise they differ in the addend and in nothing else. For each of the four
  layouts and every raw record, building from the values read back from the
  decoded entity gives that entity again.
\<close>

theorem values_matches_decoding:
  "address (Relocation_values a t d f :: 'sym Relocation) = a
   \<and> type (Relocation_values a t d f :: 'sym Relocation) = t
   \<and> addend (Relocation_values a t d f :: 'sym Relocation) = d
   \<and> is_rela (Relocation_values a t d f :: 'sym Relocation) = f
   \<and> is_rel (Relocation_values a t d f :: 'sym Relocation) = (\<not> f)
   \<and> has_symbol (Relocation_values a t d f :: 'sym Relocation) = False
   \<and> symbol (Relocation_values a t d f :: 'sym Relocation) =
       Inl (not_found ''No symbol associated with this relocation'')
   \<and> architecture (Relocation_values a t d f :: 'sym Relocation) = EM_NONE
   \<and> address (decoded_from_matching_layout a t d f :: 'sym Relocation) = a
   \<and> type (decoded_from_matching_layout a t d f :: 'sym Relocation) = t
   \<and> addend (decoded_from_matching_layout a t d f :: 'sym Relocation) = (if f then d else 0)
   \<and> is_rela (decoded_from_matching_layout a t d f :: 'sym Relocation) = f
   \<and> is_rel (decoded_from_matching_layout a t d f :: 'sym Relocation) = (\<not> f)
   \<and> has_symbol (decoded_from_matching_layout a t d f :: 'sym Relocation) = False
   \<and> symbol (decoded_from_matching_layout a t d f :: 'sym Relocation) =
       Inl (not_found ''No symbol associated with this relocation'')
   \<and> architecture (decoded_from_matching_layout a t d f :: 'sym Relocation) = EM_NONE
   \<and> ((Relocation_values a t d f :: 'sym Relocation) = decoded_from_matching_layout a t d f
        \<longleftrightarrow> f \<or> d = 0)
   \<and> (Relocation_values a t d f :: 'sym Relocation) =
       (decoded_from_matching_layout a t d f) \<lparr> addend_field := d \<rparr>
   \<and> Relocation_values (address (Relocation_Elf32_Rel h1 :: 'sym Relocation))
        (type (Relocation_Elf32_Rel h1 :: 'sym Relocation))
        (addend (Relocation_Elf32_Rel h1 :: 'sym Relocation))
        (is_rela (Relocation_Elf32_Rel h1 :: 'sym Relocation))
      = (Relocation_Elf32_Rel h1 :: 'sym Relocation)
   \<and> Relocation_values (address (Relocation_Elf32_Rela h2 :: 'sym Relocation))
        (type (Relocation_Elf32_Rela h2 :: 'sym Relocation))
        (addend (Relocation_Elf32_Rela h2 :: 'sym Relocation))
        (is_rela (Relocation_Elf32_Rela h2 :: 'sym Relocation))
      = (Relocation_Elf32_Rela h2 :: 'sym Relocation)
   \<and> Relocation_values (address (Relocation_Elf64_Rel h3 :: 'sym Relocation))
        (type (Relocation_Elf64_Rel h3 :: 'sym Relocation))
        (addend (Relocation_Elf64_Rel h3 :: 'sym Relocation))
        (is_rela (Relocation_Elf64_Rel h3 :: 'sym Relocation))
      = (Relocation_Elf64_Rel h3 :: 'sym Relocation)
   \<and> Relocation_values (address (Relocation_Elf64_Rela h4 :: 'sym Relocation))
        (type (Relocation_Elf64_Rela h4 :: 'sym Relocation))
        (addend (Relocation_Elf64_Rela h4 :: 'sym Relocation))
        (is_rela (Relocation_Elf64_Rela h4 :: 'sym Relocation))
      = (Relocation_Elf64_Rela h4 :: 'sym Relocation)"
proof (intro conjI)
  show "(Relocation_values a t d f :: 'sym Relocation) = decoded_from_matching_layout a t d f
        \<longleftrightarrow> f \<or> d = 0"
    by (rule Relocation_values_eq_decoded_iff)
qed (simp_all add: accessor_defs symbol_def Relocation_values_def
      decoded_from_matching_layout_def Relocation_Elf32_Rel_def Relocation_Elf32_Rela_def
      Relocation_Elf64_Rel_def Relocation_Elf64_Rela_def ucast_ucast_and_ffffffff)

theorem values_matches_decoding_witness:
  "(Relocation_values 0x1000 2 (- 8) True :: (string \<times> string option) Relocation) =
     Relocation_Elf64_Rela \<lparr> r_offset = 0x1000, r_info = 2, r_addend = - 8 \<rparr>
   \<and> (Relocation_values 0x1000 2 0 False :: (string \<times> string option) Relocation) =
     Relocation_Elf64_Rel \<lparr> Elf64_Rel.r_offset = 0x1000, Elf64_Rel.r_info = 2 \<rparr>
   \<and> (Relocation_values 0x1000 2 5 False :: (string \<times> string option) Relocation) \<noteq>
     Relocation_Elf64_Rel \<lparr> Elf64_Rel.r_offset = 0x1000, Elf64_Rel.r_info = 2 \<rparr>"
proof -
  have "(Relocation_values 0x1000 2 (- 8) True :: (string \<times> string option) Relocation) =
          decoded_from_matching_layout 0x1000 2 (- 8) True \<longleftrightarrow> True \<or> (- 8 :: 64 word) = 0"
    using values_matches_decoding
      [where 'sym = "string \<times> string option" and a = "0x1000" and t = 2 and d = "- 8"
         and f = True]
    by blast
  then have w1: "(Relocation_values 0x1000 2 (- 8) True :: (string \<times> string option) Relocation) =
     Relocation_Elf64_Rela \<lparr> r_offset = 0x1000, r_info = 2, r_addend = - 8 \<rparr>"
    by (simp add: decoded_from_matching_layout_def)
  have "(Relocation_values 0x1000 2 0 False :: (string \<times> string option) Relocation) =
          decoded_from_matching_layout 0x1000 2 0 False \<longleftrightarrow> False \<or> (0 :: 64 word) = 0"
    using values_matches_decoding
      [where 'sym = "string \<times> string option" and a = "0x1000" and t = 2 and d = 0
         and f = False]
    by blast
  then have w2: "(Relocation_values 0x1000 2 0 False :: (string \<times> string option) Relocation) =
     Relocation_Elf64_Rel \<lparr> Elf64_Rel.r_offset = 0x1000, Elf64_Rel.r_info = 2 \<rparr>"
    by (simp add: decoded_from_matching_layout_def)
  have "(Relocation_values 0x1000 2 5 False :: (string \<times> string option) Relocation) =
          decoded_from_matching_layout 0x1000 2 5 False \<longleftrightarrow> False \<or> (5 :: 64 word) = 0"
    using values_matches_decoding
      [where 'sym = "string \<times> string option" and a = "0x1000" and t = 2 and d = 5
         and f = False]
    by blast
  then have w3: "(Relocation_values 0x1000 2 5 False :: (string \<times> string option) Relocation) \<noteq>
     Relocation_Elf64_Rel \<lparr> Elf64_Rel.r_offset = 0x1000, Elf64_Rel.r_info = 2 \<rparr>"
    by (simp add: decoded_from_matching_layout_def)
  from w1 w2 w3 show ?thesis
    by (intro conjI)
qed

text \<open>
  C3 as stated fails for a tuple whose flag is unset and whose addend is not 0:
  the entity built from (0x1000, 2, 5, false) has the addend 5, and the entity
  decoded from the Rel record with the same offset and type has the addend 0.
\<close>

theorem values_keeps_addend_without_flag:
  "addend (Relocation_values 0x1000 2 5 False :: (string \<times> string option) Relocation) = 5
   \<and> is_rel (Relocation_values 0x1000 2 5 False :: (string \<times> string option) Relocation) = True
   \<and> addend (Relocation_Elf64_Rel \<lparr> Elf64_Rel.r_offset = 0x1000, Elf64_Rel.r_info = 2 \<rparr>
              :: (string \<times> string option) Relocation) = 0
   \<and> addend (Relocation_Elf32_Rel \<lparr> Elf32_Rel.r_offset = 0x1000, Elf32_Rel.r_info = 2 \<rparr>
              :: (string \<times> string option) Relocation) = 0
   \<and> (Relocation_values 0x1000 2 5 False :: (string \<times> string option) Relocation) \<noteq>
       Relocation_Elf64_Rel \<lparr> Elf64_Rel.r_offset = 0x1000, Elf64_Rel.r_info = 2 \<rparr>
   \<and> (Relocation_values 0x1000 2 5 False :: (string \<times> string option) Relocation) \<noteq>
       Relocation_Elf32_Rel \<lparr> Elf32_Rel.r_offset = 0x1000, Elf32_Rel.r_info = 2 \<rparr>"
  by (simp add: addend_def is_rel_def Relocation_values_def Relocation_Elf64_Rel_def
      Relocation_Elf32_Rel_def)

end
